theory Spec2Isabelle
  imports Complex_Main "HOL-Library.Log_Nat"
begin

section \<open>Entity tracker (local.ts): unit conversions\<close>

text \<open>
  The TypeScript type \<open>number\<close> is an IEEE double. Entity ids and entity type codes are
  modelled by \<^typ>\<open>int\<close> (they are protocol integers and are only compared and used as
  keys); coordinates, angles and velocities are modelled by \<^typ>\<open>real\<close>. The rounding
  of double arithmetic is written out in \<open>euclidianMod\<close> and in
  \<open>decodeNotchianVelocityByte\<close>, whose values are specified exactly. The remaining
  arithmetic (the angle conversions with \<open>\<pi>\<close>, the scalings of coordinates by powers
  of two, the vector operations) is exact. Infinities and NaN are outside this model.
\<close>

subsection \<open>Rounding to a double\<close>

text \<open>\<open>2\<close> to an integer power.\<close>

definition pow2 :: "int \<Rightarrow> real" where
  "pow2 e = (if 0 \<le> e then 2 ^ nat e else 1 / 2 ^ nat (- e))"

text \<open>
  The binary exponent of a positive number: the \<open>k\<close> with \<open>2^k \<le> x < 2^(k+1)\<close>, from the
  bit length of the integer part (of the reciprocal, below 1).
\<close>

definition ilog2 :: "real \<Rightarrow> int" where
  "ilog2 x = (if 1 \<le> x then bitlen \<lfloor>x\<rfloor> - 1 else - bitlen (\<lceil>1 / x\<rceil> - 1))"

text \<open>Rounding to the nearest integer, a tie going to the even one.\<close>

definition round_even :: "real \<Rightarrow> int" where
  "round_even m =
     (let f = \<lfloor>m\<rfloor>
      in if m - of_int f < 1 / 2 then f
         else if 1 / 2 < m - of_int f then f + 1
         else if even f then f else f + 1)"

text \<open>
  The double nearest to a real number, as every arithmetic operation of the language
  rounds its exact result: 53 significant bits, the unit in the last place not below
  \<open>2^-1074\<close> (subnormal numbers), ties to even. Overflow to infinity is not modelled;
  neither of the two operations rounded below can overflow on finite operands.
\<close>

definition round_f64 :: "real \<Rightarrow> real" where
  "round_f64 x =
     (if x = 0 then 0
      else let e = max (ilog2 \<bar>x\<bar> - 52) (- 1074)
           in sgn x * of_int (round_even (\<bar>x\<bar> / pow2 e)) * pow2 e)"

subsection \<open>The conversions\<close>

text \<open>
  The remainder operator \<open>%\<close> of the language: the result has the sign of the dividend,
  \<open>n % d = n - d * trunc (n / d)\<close>, truncation being towards zero. On doubles this
  result is a double, so the operator does not round. For \<open>d = 0\<close> the language yields
  NaN; the model then yields \<open>n\<close>, and nothing below is stated for a zero divisor.
\<close>

definition js_trunc :: "real \<Rightarrow> int" where
  "js_trunc q = (if 0 \<le> q then \<lfloor>q\<rfloor> else \<lceil>q\<rceil>)"

definition js_rem :: "real \<Rightarrow> real \<Rightarrow> real" where
  "js_rem n d = n - d * of_int (js_trunc (n / d))"

text \<open>
  \<^verbatim>\<open>
  function euclidianMod(numerator, denominator) {
    const result = numerator % denominator;
    return result < 0 ? result + denominator : result;
  }
  \<close>
  The sum \<open>result + denominator\<close> is a double addition.
\<close>

definition euclidianMod :: "real \<Rightarrow> real \<Rightarrow> real" where
  "euclidianMod numerator denominator =
     (let result = js_rem numerator denominator
      in if result < 0 then round_f64 (result + denominator) else result)"

definition PI :: real where
  "PI = pi"

definition TAU :: real where
  "TAU = 2 * PI"

definition DEG_TO_RAD :: real where
  "DEG_TO_RAD = TAU / 360"

definition RAD_TO_DEG :: real where
  "RAD_TO_DEG = 360 / TAU"

definition NOTCH_BYTE_TO_RAD :: real where
  "NOTCH_BYTE_TO_RAD = 360 / 256"

text \<open>\<open>const NOTCH_BYTE_VELOCITY_TO_BPS = 1 / 8000\<close>: the quotient is a double division.\<close>

definition NOTCH_BYTE_VELOCITY_TO_BPS :: real where
  "NOTCH_BYTE_VELOCITY_TO_BPS = round_f64 (1 / 8000)"

definition toRadians :: "real \<Rightarrow> real" where
  "toRadians angle = angle * DEG_TO_RAD"

definition toDegrees :: "real \<Rightarrow> real" where
  "toDegrees angle = angle * RAD_TO_DEG"

definition decodeNotchianYaw :: "real \<Rightarrow> real" where
  "decodeNotchianYaw deg = euclidianMod (PI - toRadians deg) TAU"

definition decodeNotchianYawByte :: "real \<Rightarrow> real" where
  "decodeNotchianYawByte byte = decodeNotchianYaw (byte * NOTCH_BYTE_TO_RAD)"

definition decodeNotchianPitch :: "real \<Rightarrow> real" where
  "decodeNotchianPitch deg = euclidianMod (toRadians (- deg) + PI) TAU - PI"

definition decodeNotchianPitchByte :: "real \<Rightarrow> real" where
  "decodeNotchianPitchByte byte = decodeNotchianPitch (byte * NOTCH_BYTE_TO_RAD)"

text \<open>\<open>return byte * NOTCH_BYTE_VELOCITY_TO_BPS\<close>: the product is a double multiplication.\<close>

definition decodeNotchianVelocityByte :: "real \<Rightarrow> real" where
  "decodeNotchianVelocityByte byte = round_f64 (byte * NOTCH_BYTE_VELOCITY_TO_BPS)"

section \<open>Data model\<close>

text \<open>
  The position and velocity of an entity are mutable 3D vectors of the vector class
  used by the entity class; neither class is part of local.ts.
\<close>

record vec3 =
  vec_x :: real
  vec_y :: real
  vec_z :: real

text \<open>
  Modelled from the spec: the vector class with its method \<open>set\<close> is missing from the
  sources. The position "supports absolute \<open>set(x,y,z)\<close>".
\<close>

definition vec3_set :: "vec3 \<Rightarrow> real \<Rightarrow> real \<Rightarrow> real \<Rightarrow> vec3" where
  "vec3_set v x y z = v\<lparr>vec_x := x, vec_y := y, vec_z := z\<rparr>"

text \<open>
  Modelled from the spec: the method \<open>translate\<close> of the missing vector class. The
  position supports "relative \<open>translate(dx,dy,dz)\<close>".
\<close>

definition vec3_translate :: "vec3 \<Rightarrow> real \<Rightarrow> real \<Rightarrow> real \<Rightarrow> vec3" where
  "vec3_translate v dx dy dz =
     v\<lparr>vec_x := vec_x v + dx, vec_y := vec_y v + dy, vec_z := vec_z v + dz\<rparr>"

text \<open>
  The fields of the entity class that local.ts reads or writes. A field that the
  constructor may leave unset is optional. Field names follow the source, with a prefix
  where the plain name is taken (\<open>id\<close>, \<open>type\<close>, \<open>name\<close>).
\<close>

record entity =
  ent_id :: int
  uuid :: "string option"
  ent_type :: "string option"
  displayName :: "string option"
  entityType :: "int option"
  ent_name :: "string option"
  kind :: "string option"
  mobType :: "string option"
  height :: "real option"
  width :: "real option"
  position :: vec3
  velocity :: vec3
  yaw :: real
  pitch :: real
  isValid :: bool

text \<open>An entry of the type registry's table \<open>registry.entities\<close>.\<close>

record entity_data =
  data_type :: string
  data_displayName :: string
  data_id :: int
  data_name :: string
  data_category :: string
  data_height :: real
  data_width :: real

text \<open>
  The collaborators that local.ts imports and that are not among the sources are
  parameters of the model: the table \<open>registry.entities\<close>, the feature query
  \<open>registry.supportFeature\<close>, and the constructor \<open>new Entity(id)\<close>.
\<close>

record env =
  registry_entities :: "int \<rightharpoonup> entity_data"
  supportFeature :: "string \<Rightarrow> bool"
  new_Entity :: "int \<Rightarrow> entity"

subsection \<open>Packets\<close>

text \<open>Interface \<open>DownstreamSpawnEntityPacketData\<close>.\<close>

record spawn_entity_data =
  sp_entityId :: int
  sp_objectUUID :: string
  sp_type :: int
  sp_x :: real
  sp_y :: real
  sp_z :: real
  sp_pitch :: real
  sp_yaw :: real
  sp_headPitch :: real
  sp_objectData :: real
  sp_velocityX :: real
  sp_velocityY :: real
  sp_velocityZ :: real

text \<open>Interface \<open>DownstreamEntityVelocityPacketData\<close>.\<close>

record entity_velocity_data =
  ev_entityId :: int
  ev_velocityX :: real
  ev_velocityY :: real
  ev_velocityZ :: real

text \<open>Interface \<open>DownstreamEntityDestroyPacketData\<close>.\<close>

record entity_destroy_data =
  entityIds :: "int list"

text \<open>Interface \<open>DownstreamRelativeEntityMovePacketData\<close>.\<close>

record rel_entity_move_data =
  mv_entityId :: int
  dX :: real
  dY :: real
  dZ :: real
  mv_yaw :: real
  mv_pitch :: real
  mv_onGround :: bool

text \<open>Interface \<open>DownstreamEntityLookPacketData\<close>.\<close>

record entity_look_data =
  lk_entityId :: int
  lk_yaw :: real
  lk_pitch :: real
  lk_onGround :: bool

text \<open>Interface \<open>DownstreamEntityTeleportPacketData\<close>.\<close>

record entity_teleport_data =
  tp_entityId :: int
  tp_x :: real
  tp_y :: real
  tp_z :: real
  tp_yaw :: real
  tp_pitch :: real
  tp_onGround :: bool

text \<open>Interface \<open>PacketPhysicsState\<close>.\<close>

record physics_state =
  ps_x :: real
  ps_y :: real
  ps_z :: real
  ps_yaw :: real
  ps_pitch :: real
  ps_velocityX :: real
  ps_velocityY :: real
  ps_velocityZ :: real

text \<open>
  The spawn handler passes \<open>packet.data\<close> where a \<open>PacketPhysicsState\<close> is expected;
  the language's structural typing reads the fields of the same names.
\<close>

definition spawn_pose :: "spawn_entity_data \<Rightarrow> physics_state" where
  "spawn_pose d =
     \<lparr>ps_x = sp_x d, ps_y = sp_y d, ps_z = sp_z d,
      ps_yaw = sp_yaw d, ps_pitch = sp_pitch d,
      ps_velocityX = sp_velocityX d, ps_velocityY = sp_velocityY d,
      ps_velocityZ = sp_velocityZ d\<rparr>"

text \<open>
  The \<open>entity_move_look\<close> handler passes its packet to \<open>onEntityLook\<close>, which reads
  \<open>entityId\<close>, \<open>yaw\<close> and \<open>pitch\<close> of it.
\<close>

definition look_of_move :: "rel_entity_move_data \<Rightarrow> entity_look_data" where
  "look_of_move d =
     \<lparr>lk_entityId = mv_entityId d, lk_yaw = mv_yaw d, lk_pitch = mv_pitch d,
      lk_onGround = mv_onGround d\<rparr>"

text \<open>A packet as the proxy delivers it: the name it is subscribed under, with its data.\<close>

datatype packet =
  Spawn_entity spawn_entity_data
| Entity_velocity entity_velocity_data
| Entity_destroy entity_destroy_data
| Rel_entity_move rel_entity_move_data
| Entity_look entity_look_data
| Entity_move_look rel_entity_move_data
| Entity_teleport entity_teleport_data

text \<open>The only error local.ts throws: \<open>new Error(`Unknown entity: ${id}`)\<close>.\<close>

datatype error = Unknown_entity int

subsection \<open>State\<close>

text \<open>
  \<open>edt.emit(name, entity, packet)\<close> hands the entity and the packet to the subscribers
  of the event, which are outside local.ts. The model records each emission, with the
  value the entity has at that moment, in the order of the calls.
\<close>

datatype event = Event string entity packet

text \<open>
  The module state: the map \<open>entities\<close> and the emissions so far. The map holds one
  object per key (\<open>getEntity\<close> is the only writer and stores a new object), so a field
  assignment through a reference obtained for key \<open>eid\<close> is an update of the map at
  \<open>eid\<close> for as long as the key is present.
\<close>

record state =
  entities :: "int \<rightharpoonup> entity"
  emitted :: "event list"

definition emit :: "string \<Rightarrow> entity \<Rightarrow> packet \<Rightarrow> state \<Rightarrow> state" where
  "emit ename e p s = s\<lparr>emitted := emitted s @ [Event ename e p]\<rparr>"

text \<open>
  \<^verbatim>\<open>
  function getEntity(id) {
    let entity = entities.get(id);
    if (entity === undefined) {
      entities.set(id, (entity = new Entity(id)));
    }
    return entity;
  }
  \<close>
\<close>

definition getEntity :: "env \<Rightarrow> int \<Rightarrow> state \<Rightarrow> entity \<times> state" where
  "getEntity env eid s =
     (case entities s eid of
        None \<Rightarrow>
          (let e = new_Entity env eid
           in (e, s\<lparr>entities := (entities s)(eid \<mapsto> e)\<rparr>))
      | Some e \<Rightarrow> (e, s))"

text \<open>Writing the fields of the object that the map holds under \<open>eid\<close>.\<close>

definition put_entity :: "int \<Rightarrow> entity \<Rightarrow> state \<Rightarrow> state" where
  "put_entity eid e s = s\<lparr>entities := (entities s)(eid \<mapsto> e)\<rparr>"

text \<open>\<open>entities.delete(id)\<close>.\<close>

definition delete_entity :: "int \<Rightarrow> state \<Rightarrow> state" where
  "delete_entity eid s = s\<lparr>entities := (entities s)(eid := None)\<rparr>"

section \<open>Operations\<close>

definition setEntityDataByType :: "env \<Rightarrow> entity \<Rightarrow> int \<Rightarrow> entity" where
  "setEntityDataByType env e typeId =
     (case registry_entities env typeId of
        Some d \<Rightarrow>
          e\<lparr>ent_type := Some (data_type d),
            displayName := Some (data_displayName d),
            entityType := Some (data_id d),
            ent_name := Some (data_name d),
            kind := Some (data_category d),
            height := Some (data_height d),
            width := Some (data_width d)\<rparr>
      | None \<Rightarrow>
          e\<lparr>ent_type := Some ''other'',
            entityType := Some typeId,
            mobType := Some ''unknown'',
            displayName := Some ''unknown'',
            ent_name := Some ''unknown'',
            kind := Some ''unknown''\<rparr>)"

definition setEntityPose :: "env \<Rightarrow> entity \<Rightarrow> physics_state \<Rightarrow> entity" where
  "setEntityPose env e pose =
     (let e1 =
        (if supportFeature env ''fixedPointPosition''
         then e\<lparr>position := vec3_set (position e) (ps_x pose / 32) (ps_y pose / 32) (ps_z pose / 32)\<rparr>
         else if supportFeature env ''doublePosition''
         then e\<lparr>position := vec3_set (position e) (ps_x pose) (ps_y pose) (ps_z pose)\<rparr>
         else e);
        e2 = e1\<lparr>yaw := decodeNotchianYawByte (ps_yaw pose)\<rparr>;
        e3 = e2\<lparr>pitch := decodeNotchianPitchByte (ps_pitch pose)\<rparr>;
        e4 = e3\<lparr>velocity := (velocity e3)\<lparr>vec_x := decodeNotchianVelocityByte (ps_velocityX pose)\<rparr>\<rparr>;
        e5 = e4\<lparr>velocity := (velocity e4)\<lparr>vec_y := decodeNotchianVelocityByte (ps_velocityY pose)\<rparr>\<rparr>
      in e5\<lparr>velocity := (velocity e5)\<lparr>vec_z := decodeNotchianVelocityByte (ps_velocityZ pose)\<rparr>\<rparr>)"

definition addEntity :: "env \<Rightarrow> int \<Rightarrow> string \<Rightarrow> int \<Rightarrow> physics_state \<Rightarrow> state \<Rightarrow> state" where
  "addEntity env eid u typeId pose s =
     (case getEntity env eid s of
        (e, s1) \<Rightarrow>
          (let e1 = e\<lparr>uuid := Some u\<rparr>;
               e2 = setEntityDataByType env e1 typeId;
               e3 = setEntityPose env e2 pose
           in put_entity eid e3 s1))"

subsection \<open>Packet handlers\<close>

text \<open>
  A handler is an async function: it completes with the new state (\<open>Inr\<close>) or rejects
  with an error (\<open>Inl\<close>).
\<close>

definition on_spawn_entity :: "env \<Rightarrow> spawn_entity_data \<Rightarrow> state \<Rightarrow> error + state" where
  "on_spawn_entity env d s =
     (let s1 = addEntity env (sp_entityId d) (sp_objectUUID d) (sp_type d) (spawn_pose d) s
      in case getEntity env (sp_entityId d) s1 of
           (e, s2) \<Rightarrow> Inr (emit ''entity.spawn'' e (Spawn_entity d) s2))"

text \<open>
  \<^verbatim>\<open>
  const entity = getEntity(packet.data.entityId);
  if (entity === undefined)
    throw new Error(`Unknown entity: ${packet.data.entityId}`);
  \<close>
  The test is on the value that \<open>getEntity\<close> returned, which is an entity in every
  case; the branch of the throw is kept as the \<open>None\<close> case of that value.
\<close>

definition on_entity_velocity :: "env \<Rightarrow> entity_velocity_data \<Rightarrow> state \<Rightarrow> error + state" where
  "on_entity_velocity env d s =
     (case getEntity env (ev_entityId d) s of
        (e, s1) \<Rightarrow>
          (case Some e of
             None \<Rightarrow> Inl (Unknown_entity (ev_entityId d))
           | Some e0 \<Rightarrow>
               (let e1 = e0\<lparr>velocity := (velocity e0)\<lparr>vec_x := decodeNotchianVelocityByte (ev_velocityX d)\<rparr>\<rparr>;
                    e2 = e1\<lparr>velocity := (velocity e1)\<lparr>vec_y := decodeNotchianVelocityByte (ev_velocityY d)\<rparr>\<rparr>;
                    e3 = e2\<lparr>velocity := (velocity e2)\<lparr>vec_z := decodeNotchianVelocityByte (ev_velocityZ d)\<rparr>\<rparr>
                in Inr (emit ''entity.velocity'' e3 (Entity_velocity d) (put_entity (ev_entityId d) e3 s1)))))"

text \<open>
  \<^verbatim>\<open>
  for (const id of packet.data.entityIds) {
    const entity = getEntity(id);
    entity.isValid = false;
    entities.delete(id);
    await edt.emit('entity.destroy', entity, packet);
  }
  \<close>
\<close>

fun destroy_loop :: "env \<Rightarrow> packet \<Rightarrow> int list \<Rightarrow> state \<Rightarrow> state" where
  "destroy_loop env p [] s = s"
| "destroy_loop env p (eid # ids) s =
     (case getEntity env eid s of
        (e, s1) \<Rightarrow>
          (let e1 = e\<lparr>isValid := False\<rparr>;
               s2 = put_entity eid e1 s1;
               s3 = delete_entity eid s2;
               s4 = emit ''entity.destroy'' e1 p s3
           in destroy_loop env p ids s4))"

definition on_entity_destroy :: "env \<Rightarrow> entity_destroy_data \<Rightarrow> state \<Rightarrow> error + state" where
  "on_entity_destroy env d s = Inr (destroy_loop env (Entity_destroy d) (entityIds d) s)"

text \<open>
  \<open>onRelativeEntityMovement\<close> and \<open>onEntityLook\<close> are registered under their own packet
  names and are both called by the \<open>entity_move_look\<close> handler; they take the data they
  read and the packet they pass on to the emitter.
\<close>

definition onRelativeEntityMovement ::
    "env \<Rightarrow> rel_entity_move_data \<Rightarrow> packet \<Rightarrow> state \<Rightarrow> error + state" where
  "onRelativeEntityMovement env d p s =
     (case getEntity env (mv_entityId d) s of
        (e, s1) \<Rightarrow>
          (let e1 =
             (if supportFeature env ''fixedPointDelta''
              then e\<lparr>position := vec3_translate (position e) (dX d / 32) (dY d / 32) (dZ d / 32)\<rparr>
              else e\<lparr>position := vec3_translate (position e)
                     (dX d / (128 * 32)) (dY d / (128 * 32)) (dZ d / (128 * 32))\<rparr>)
           in Inr (emit ''entity.position'' e1 p (put_entity (mv_entityId d) e1 s1))))"

definition onEntityLook :: "env \<Rightarrow> entity_look_data \<Rightarrow> packet \<Rightarrow> state \<Rightarrow> error + state" where
  "onEntityLook env d p s =
     (case getEntity env (lk_entityId d) s of
        (e, s1) \<Rightarrow>
          (let e1 = e\<lparr>yaw := decodeNotchianYawByte (lk_yaw d)\<rparr>;
               e2 = e1\<lparr>pitch := decodeNotchianPitchByte (lk_pitch d)\<rparr>
           in Inr (emit ''entity.look'' e2 p (put_entity (lk_entityId d) e2 s1))))"

definition on_entity_move_look :: "env \<Rightarrow> rel_entity_move_data \<Rightarrow> state \<Rightarrow> error + state" where
  "on_entity_move_look env d s =
     (case onRelativeEntityMovement env d (Entity_move_look d) s of
        Inl err \<Rightarrow> Inl err
      | Inr s1 \<Rightarrow> onEntityLook env (look_of_move d) (Entity_move_look d) s1)"

definition on_entity_teleport :: "env \<Rightarrow> entity_teleport_data \<Rightarrow> state \<Rightarrow> error + state" where
  "on_entity_teleport env d s =
     (case getEntity env (tp_entityId d) s of
        (e, s1) \<Rightarrow>
          (let e1 =
             (if supportFeature env ''fixedPointPosition''
              then e\<lparr>position := vec3_set (position e) (tp_x d / 32) (tp_y d / 32) (tp_z d / 32)\<rparr>
              else if supportFeature env ''doublePosition''
              then e\<lparr>position := vec3_set (position e) (tp_x d) (tp_y d) (tp_z d)\<rparr>
              else e);
               e2 = e1\<lparr>yaw := decodeNotchianYawByte (tp_yaw d)\<rparr>;
               e3 = e2\<lparr>pitch := decodeNotchianPitchByte (tp_pitch d)\<rparr>
           in Inr (emit ''entity.teleport'' e3 (Entity_teleport d) (put_entity (tp_entityId d) e3 s1))))"

text \<open>The subscriptions \<open>proxy.downstream.on(name, handler)\<close>.\<close>

fun handle :: "env \<Rightarrow> packet \<Rightarrow> state \<Rightarrow> error + state" where
  "handle env (Spawn_entity d) s = on_spawn_entity env d s"
| "handle env (Entity_velocity d) s = on_entity_velocity env d s"
| "handle env (Entity_destroy d) s = on_entity_destroy env d s"
| "handle env (Rel_entity_move d) s = onRelativeEntityMovement env d (Rel_entity_move d) s"
| "handle env (Entity_look d) s = onEntityLook env d (Entity_look d) s"
| "handle env (Entity_move_look d) s = on_entity_move_look env d s"
| "handle env (Entity_teleport d) s = on_entity_teleport env d s"

text \<open>The queries of the plugin class: \<open>getEntityById\<close> is \<open>entities.get(id)\<close>.\<close>

definition getEntityById :: "state \<Rightarrow> int \<Rightarrow> entity option" where
  "getEntityById s eid = entities s eid"

section \<open>An instance of the parameters\<close>

text \<open>
  A constructor, a type registry and two feature sets, for evaluating the handlers on
  concrete packets. \<open>sample_env\<close> has the fixed-point encodings of the older protocol
  versions, \<open>double_position_env\<close> has native coordinates, \<open>legacy_delta_env\<close> has none
  of the three features.
\<close>

definition sample_Entity :: "int \<Rightarrow> entity" where
  "sample_Entity eid =
     \<lparr>ent_id = eid, uuid = None, ent_type = None, displayName = None, entityType = None,
      ent_name = None, kind = None, mobType = None, height = None, width = None,
      position = \<lparr>vec_x = 0, vec_y = 0, vec_z = 0\<rparr>,
      velocity = \<lparr>vec_x = 0, vec_y = 0, vec_z = 0\<rparr>,
      yaw = 0, pitch = 0, isValid = True\<rparr>"

definition sample_data :: entity_data where
  "sample_data =
     \<lparr>data_type = ''hostile'', data_displayName = ''Creeper'', data_id = 50,
      data_name = ''creeper'', data_category = ''Hostile mobs'',
      data_height = 17 / 10, data_width = 6 / 10\<rparr>"

definition sample_env :: env where
  "sample_env =
     \<lparr>registry_entities = [50 \<mapsto> sample_data],
      supportFeature = (\<lambda>f. f = ''fixedPointPosition'' \<or> f = ''fixedPointDelta''),
      new_Entity = sample_Entity\<rparr>"

definition legacy_delta_env :: env where
  "legacy_delta_env =
     \<lparr>registry_entities = [50 \<mapsto> sample_data],
      supportFeature = (\<lambda>f. False),
      new_Entity = sample_Entity\<rparr>"

definition empty_state :: state where
  "empty_state = \<lparr>entities = Map.empty, emitted = []\<rparr>"

definition double_position_env :: env where
  "double_position_env =
     \<lparr>registry_entities = [50 \<mapsto> sample_data],
      supportFeature = (\<lambda>f. f = ''doublePosition''),
      new_Entity = sample_Entity\<rparr>"

definition tracked_state :: state where
  "tracked_state = \<lparr>entities = [3 \<mapsto> sample_Entity 3], emitted = []\<rparr>"

definition three_state :: state where
  "three_state =
     \<lparr>entities = [1 \<mapsto> sample_Entity 1, 2 \<mapsto> sample_Entity 2, 3 \<mapsto> sample_Entity 3],
      emitted = []\<rparr>"

definition sample_spawn :: "int \<Rightarrow> spawn_entity_data" where
  "sample_spawn t =
     \<lparr>sp_entityId = 42, sp_objectUUID = ''u1'', sp_type = t,
      sp_x = 64, sp_y = 32, sp_z = - 96, sp_pitch = 0, sp_yaw = 64, sp_headPitch = 0,
      sp_objectData = 0, sp_velocityX = 8000, sp_velocityY = 0, sp_velocityZ = 0\<rparr>"

definition sample_teleport :: entity_teleport_data where
  "sample_teleport =
     \<lparr>tp_entityId = 3, tp_x = 64, tp_y = 32, tp_z = - 96, tp_yaw = 0, tp_pitch = 0,
      tp_onGround = True\<rparr>"

definition sample_velocity :: entity_velocity_data where
  "sample_velocity =
     \<lparr>ev_entityId = 7, ev_velocityX = 8000, ev_velocityY = 0, ev_velocityZ = 0\<rparr>"

definition sample_move :: rel_entity_move_data where
  "sample_move =
     \<lparr>mv_entityId = 3, dX = 320, dY = 0, dZ = - 320, mv_yaw = 0, mv_pitch = 0,
      mv_onGround = True\<rparr>"

definition sample_look :: entity_look_data where
  "sample_look = \<lparr>lk_entityId = 3, lk_yaw = 64, lk_pitch = 0, lk_onGround = True\<rparr>"

section \<open>Properties of the rounding\<close>

lemma pow2_pos: "0 < pow2 e"
  by (simp add: pow2_def)

lemma pow2_powi: "pow2 e = 2 powi e"
proof (cases "0 \<le> e")
  case True
  then show ?thesis by (simp add: pow2_def power_int_def)
next
  case False
  have "1 / (2::real) ^ nat (- e) = inverse 2 ^ nat (- e)"
    by (simp only: power_one_over inverse_eq_divide)
  with False show ?thesis by (simp only: pow2_def power_int_def if_False)
qed

lemma pow2_add: "pow2 (a + b) = pow2 a * pow2 b"
  by (simp add: pow2_powi power_int_add)

lemma round_even_error: "\<bar>of_int (round_even m) - m\<bar> \<le> 1 / 2"
  unfolding round_even_def Let_def by (auto; linarith)



lemma ilog2_lower: 
  assumes "0 < x" shows "pow2 (ilog2 x) \<le> x"
proof (cases "1 \<le> x")
  case True
  then have p: "0 < \<lfloor>x\<rfloor>" by linarith
  from bitlen_bounds [OF p] have "2 ^ nat (bitlen \<lfloor>x\<rfloor> - 1) \<le> \<lfloor>x\<rfloor>" ..
  then have "(2::real) ^ nat (bitlen \<lfloor>x\<rfloor> - 1) \<le> of_int \<lfloor>x\<rfloor>"
    by (metis of_int_le_iff of_int_numeral of_int_power)
  also have "\<dots> \<le> x" by simp
  finally have a: "(2::real) ^ nat (bitlen \<lfloor>x\<rfloor> - 1) \<le> x" .
  have "1 \<le> bitlen \<lfloor>x\<rfloor>" using p by (simp add: bitlen_alt_def)
  with a True show ?thesis
    by (simp add: ilog2_def pow2_def)
next
  case False
  with assms have y: "1 < 1 / x" by simp
  define M where "M = \<lceil>1 / x\<rceil> - 1"
  have yM: "1 / x \<le> of_int M + 1" unfolding M_def by simp
  show ?thesis
  proof (cases "0 < M")
    case True
    from bitlen_bounds [OF True] have "M < 2 ^ nat (bitlen M)" ..
    then have "M + 1 \<le> 2 ^ nat (bitlen M)" by simp
    then have "real_of_int (M + 1) \<le> 2 ^ nat (bitlen M)"
      by (metis of_int_le_iff of_int_numeral of_int_power)
    with yM have "1 / x \<le> 2 ^ nat (bitlen M)" by simp
    then have "1 / 2 ^ nat (bitlen M) \<le> x"
      using assms by (simp add: field_simps)
    moreover have "0 \<le> bitlen M" by (rule bitlen_nonneg)
    ultimately show ?thesis
      using False by (auto simp add: ilog2_def pow2_def M_def [symmetric])
  next
    case F: False
    then have "\<lceil>1 / x\<rceil> \<le> 1" unfolding M_def by simp
    then have "1 / x \<le> 1" by (simp add: ceiling_le_iff)
    with y show ?thesis by simp
  qed
qed

lemma round_f64_abs_error:
  assumes "x \<noteq> 0"
  shows "\<bar>round_f64 x - x\<bar> \<le> pow2 (max (ilog2 \<bar>x\<bar> - 52) (- 1074)) / 2"
proof -
  define p where "p = pow2 (max (ilog2 \<bar>x\<bar> - 52) (- 1074))"
  define n where "n = round_even (\<bar>x\<bar> / p)"
  have p: "0 < p" unfolding p_def by (rule pow2_pos)
  have fl: "round_f64 x = sgn x * of_int n * p"
    using assms by (simp add: round_f64_def Let_def p_def n_def)
  have "\<bar>x\<bar> / p * p = \<bar>x\<bar>"
    using p by simp
  moreover have "sgn x * \<bar>x\<bar> = x"
    by (simp add: sgn_real_def)
  ultimately have "sgn x * ((of_int n - \<bar>x\<bar> / p) * p) = sgn x * of_int n * p - x"
    by (simp add: algebra_simps)
  then have "round_f64 x - x = sgn x * ((of_int n - \<bar>x\<bar> / p) * p)"
    unfolding fl by simp
  then have "\<bar>round_f64 x - x\<bar> = \<bar>of_int n - \<bar>x\<bar> / p\<bar> * p"
    using assms p by (simp add: abs_mult sgn_real_def)
  also have "\<dots> \<le> (1 / 2) * p"
    using round_even_error [of "\<bar>x\<bar> / p"] p
    unfolding n_def by (intro mult_right_mono) simp_all
  finally show ?thesis
    unfolding p_def by simp
qed

lemma round_f64_error:
  assumes "pow2 (- 1022) \<le> \<bar>x\<bar>"
  shows "\<bar>round_f64 x - x\<bar> \<le> \<bar>x\<bar> / 2 ^ 53"
proof -
  have x0: "x \<noteq> 0" "0 < \<bar>x\<bar>"
    using assms pow2_pos [of "- 1022"] by auto
  define k where "k = ilog2 \<bar>x\<bar>"
  have lo: "pow2 k \<le> \<bar>x\<bar>"
    unfolding k_def by (rule ilog2_lower) (rule x0)
  have "pow2 (max (k - 52) (- 1074)) / 2 \<le> \<bar>x\<bar> / 2 ^ 53"
  proof (cases "- 1074 \<le> k - 52")
    case True
    have "pow2 (k - 52) = pow2 k * pow2 (- 52)"
      using pow2_add [of k "- 52"] by simp
    also have "pow2 (- 52) = 1 / 2 ^ 52"
      by (simp add: pow2_def)
    finally have "pow2 (k - 52) / 2 = pow2 k / 2 ^ 53"
      by simp
    also have "\<dots> \<le> \<bar>x\<bar> / 2 ^ 53"
      using lo by (simp add: divide_right_mono)
    finally have "pow2 (k - 52) / 2 \<le> \<bar>x\<bar> / 2 ^ 53" .
    moreover have "max (k - 52) (- 1074) = k - 52"
      using True by simp
    ultimately show ?thesis by simp
  next
    case False
    have "pow2 (- 1074) = pow2 (- 1022) * pow2 (- 52)"
      using pow2_add [of "- 1022" "- 52"] by simp
    also have "pow2 (- 52) = 1 / 2 ^ 52"
      by (simp add: pow2_def)
    finally have "pow2 (- 1074) / 2 = pow2 (- 1022) / 2 ^ 53"
      by simp
    also have "\<dots> \<le> \<bar>x\<bar> / 2 ^ 53"
      using assms by (simp add: divide_right_mono)
    finally have "pow2 (- 1074) / 2 \<le> \<bar>x\<bar> / 2 ^ 53" .
    moreover have "max (k - 52) (- 1074) = - 1074"
      using False by simp
    ultimately show ?thesis by simp
  qed
  with round_f64_abs_error [OF x0(1)] show ?thesis
    unfolding k_def by linarith
qed


lemma bitlen_eqI:
  assumes "2 ^ k \<le> x" and "x < 2 ^ Suc k"
  shows "bitlen x = int (Suc k)"
proof -
  have "bitlen x \<le> int (Suc k)"
    using assms(2) by (simp add: bitlen_le_iff_power del: of_nat_Suc)
  moreover have "\<not> bitlen x \<le> int k"
    using assms(1) by (simp add: bitlen_le_iff_power)
  ultimately show ?thesis by simp
qed

lemma round_f64_normal:
  assumes "0 < x" and "ilog2 x = k" and "- 1022 \<le> k"
  shows "round_f64 x = of_int (round_even (x / pow2 (k - 52))) * pow2 (k - 52)"
proof -
  have "max (ilog2 \<bar>x\<bar> - 52) (- 1074) = k - 52"
    using assms by simp
  with assms(1) show ?thesis
    by (simp add: round_f64_def Let_def)
qed

lemma round_f64_inv_8000: "round_f64 (1 / 8000) = 1152921504606847 / 2 ^ 63"
proof -
  have "bitlen 7999 = int (Suc 12)"
    by (rule bitlen_eqI) simp_all
  then have k: "ilog2 (1 / 8000) = - 13"
    by (simp add: ilog2_def)
  have "round_f64 (1 / 8000) =
      of_int (round_even (1 / 8000 / pow2 (- 13 - 52))) * pow2 (- 13 - 52)"
    by (rule round_f64_normal [OF _ k]) simp_all
  also have "\<dots> = 1152921504606847 / 2 ^ 63"
    by (simp add: round_even_def pow2_def Let_def)
  finally show ?thesis .
qed

lemma round_f64_9: "round_f64 (9 * (1152921504606847 / 2 ^ 63)) = 1297036692682703 / 2 ^ 60"
proof -
  have "bitlen 888 = int (Suc 9)"
    by (rule bitlen_eqI) simp_all
  then have k: "ilog2 (9 * (1152921504606847 / 2 ^ 63)) = - 10"
    by (simp add: ilog2_def)
  have "round_f64 (9 * (1152921504606847 / 2 ^ 63)) =
      of_int (round_even (9 * (1152921504606847 / 2 ^ 63) / pow2 (- 10 - 52))) * pow2 (- 10 - 52)"
    by (rule round_f64_normal [OF _ k]) simp_all
  also have "\<dots> = 1297036692682703 / 2 ^ 60"
    by (simp add: round_even_def pow2_def Let_def)
  finally show ?thesis .
qed

lemma round_f64_9_8000: "round_f64 (9 / 8000) = 5188146770730811 / 2 ^ 62"
proof -
  have "bitlen 888 = int (Suc 9)"
    by (rule bitlen_eqI) simp_all
  then have k: "ilog2 (9 / 8000) = - 10"
    by (simp add: ilog2_def)
  have "round_f64 (9 / 8000) =
      of_int (round_even (9 / 8000 / pow2 (- 10 - 52))) * pow2 (- 10 - 52)"
    by (rule round_f64_normal [OF _ k]) simp_all
  also have "\<dots> = 5188146770730811 / 2 ^ 62"
    by (simp add: round_even_def pow2_def Let_def)
  finally show ?thesis .
qed

lemma round_f64_8000: "round_f64 (8000 * (1152921504606847 / 2 ^ 63)) = 1"
proof -
  have "bitlen 1 = int (Suc 0)"
    by (rule bitlen_eqI) simp_all
  then have k: "ilog2 (8000 * (1152921504606847 / 2 ^ 63)) = 0"
    by (simp add: ilog2_def)
  have "round_f64 (8000 * (1152921504606847 / 2 ^ 63)) =
      of_int (round_even (8000 * (1152921504606847 / 2 ^ 63) / pow2 (0 - 52))) * pow2 (0 - 52)"
    by (rule round_f64_normal [OF _ k]) simp_all
  also have "\<dots> = 1"
    by (simp add: round_even_def pow2_def Let_def)
  finally show ?thesis .
qed



section \<open>Properties of the conversions\<close>









lemma NOTCH_BYTE_VELOCITY_TO_BPS_value:
  "NOTCH_BYTE_VELOCITY_TO_BPS = 1152921504606847 / 2 ^ 63"
  unfolding NOTCH_BYTE_VELOCITY_TO_BPS_def by (rule round_f64_inv_8000)

lemma decodeNotchianVelocityByte_0: "decodeNotchianVelocityByte 0 = 0"
  by (simp add: decodeNotchianVelocityByte_def round_f64_def)

lemma decodeNotchianVelocityByte_8000: "decodeNotchianVelocityByte 8000 = 1"
  unfolding decodeNotchianVelocityByte_def NOTCH_BYTE_VELOCITY_TO_BPS_value
  by (rule round_f64_8000)

lemma decodeNotchianVelocityByte_error:
  assumes "1 \<le> \<bar>b\<bar>"
  shows "\<bar>decodeNotchianVelocityByte b - b / 8000\<bar> \<le> \<bar>b\<bar> / 8000 / 2 ^ 52"
proof -
  define c :: real where "c = 1152921504606847 / 2 ^ 63"
  have c: "0 < c" "pow2 (- 1022) \<le> c"
    by (simp_all add: c_def pow2_def)
  have f: "decodeNotchianVelocityByte b = round_f64 (b * c)"
    by (simp add: decodeNotchianVelocityByte_def NOTCH_BYTE_VELOCITY_TO_BPS_value c_def)
  have bc: "\<bar>b * c\<bar> = \<bar>b\<bar> * c"
    using c(1) by (simp add: abs_mult)
  have "c * 1 \<le> c * \<bar>b\<bar>"
    using assms c(1) by (intro mult_left_mono) simp_all
  with c(2) have "pow2 (- 1022) \<le> \<bar>b * c\<bar>"
    unfolding bc by (simp add: mult.commute)
  from round_f64_error [OF this] have e1: "\<bar>round_f64 (b * c) - b * c\<bar> \<le> \<bar>b\<bar> * c / 2 ^ 53"
    unfolding bc .
  have "b * c - b / 8000 = b * (c - 1 / 8000)"
    by (simp add: algebra_simps)
  moreover have "0 \<le> c - 1 / 8000"
    by (simp add: c_def)
  ultimately have e2: "\<bar>b * c - b / 8000\<bar> = \<bar>b\<bar> * (c - 1 / 8000)"
    by (simp add: abs_mult)
  have "c / 2 ^ 53 + (c - 1 / 8000) \<le> 1 / 8000 / 2 ^ 52"
    by (simp add: c_def)
  then have "\<bar>b\<bar> * (c / 2 ^ 53 + (c - 1 / 8000)) \<le> \<bar>b\<bar> * (1 / 8000 / 2 ^ 52)"
    by (intro mult_left_mono) simp_all
  then have e3: "\<bar>b\<bar> * c / 2 ^ 53 + \<bar>b\<bar> * (c - 1 / 8000) \<le> \<bar>b\<bar> / 8000 / 2 ^ 52"
    by (simp add: algebra_simps)
  have "\<bar>round_f64 (b * c) - b / 8000\<bar>
      \<le> \<bar>round_f64 (b * c) - b * c\<bar> + \<bar>b * c - b / 8000\<bar>"
    by linarith
  with e1 e2 e3 show ?thesis
    unfolding f by linarith
qed

text \<open>
  Claim C8 as stated (for every input \<open>b\<close> the result equals \<open>b / 8000\<close> exactly) fails
  at \<open>b = 9\<close>: the product of 9 with the double nearest to \<open>1 / 8000\<close> rounds to
  \<open>1297036692682703 / 2^60\<close>, which is neither \<open>9 / 8000\<close> nor the double nearest to it.
\<close>

theorem decodeNotchianVelocityByte_counterexample:
  "decodeNotchianVelocityByte 9 = 1297036692682703 / 2 ^ 60
   \<and> decodeNotchianVelocityByte 9 \<noteq> 9 / 8000
   \<and> decodeNotchianVelocityByte 9 \<noteq> round_f64 (9 / 8000)"
proof -
  have v: "decodeNotchianVelocityByte 9 = 1297036692682703 / 2 ^ 60"
    unfolding decodeNotchianVelocityByte_def NOTCH_BYTE_VELOCITY_TO_BPS_value
    by (rule round_f64_9)
  have q: "round_f64 (9 / 8000) = 5188146770730811 / 2 ^ 62"
    by (rule round_f64_9_8000)
  show ?thesis
    unfolding v q by simp
qed

text \<open>
  Claim C8, amended: \<open>decodeNotchianVelocityByte 0\<close> is 0 and
  \<open>decodeNotchianVelocityByte 8000\<close> is 1; for every input \<open>b\<close> the result is the double
  product of \<open>b\<close> and the double nearest to \<open>1 / 8000\<close>, and for \<open>\<bar>b\<bar> \<ge> 1\<close> it equals
  \<open>b / 8000\<close> up to a relative error of \<open>2^-52\<close>.
\<close>

theorem decodeNotchianVelocityByte_rounded:
  "decodeNotchianVelocityByte 0 = 0 \<and> decodeNotchianVelocityByte 8000 = 1
   \<and> decodeNotchianVelocityByte b = round_f64 (b * round_f64 (1 / 8000))
   \<and> (1 \<le> \<bar>b\<bar> \<longrightarrow> \<bar>decodeNotchianVelocityByte b - b / 8000\<bar> \<le> \<bar>b\<bar> / 8000 / 2 ^ 52)"
  using decodeNotchianVelocityByte_0 decodeNotchianVelocityByte_8000
    decodeNotchianVelocityByte_error [of b]
  by (simp add: decodeNotchianVelocityByte_def NOTCH_BYTE_VELOCITY_TO_BPS_def)

theorem decodeNotchianVelocityByte_rounded_witness:
  "(1::real) \<le> \<bar>9\<bar>
   \<and> decodeNotchianVelocityByte 9 = round_f64 (9 * round_f64 (1 / 8000))
   \<and> \<bar>decodeNotchianVelocityByte 9 - 9 / 8000\<bar> \<le> \<bar>9\<bar> / 8000 / 2 ^ 52"
proof -
  have h: "(1::real) \<le> \<bar>9\<bar>"
    by simp
  from decodeNotchianVelocityByte_rounded [of 9] h show ?thesis
    by blast
qed







section \<open>Properties of the registry and the handlers\<close>

lemma getEntity_fst:
  "fst (getEntity env eid s) =
     (case entities s eid of None \<Rightarrow> new_Entity env eid | Some e \<Rightarrow> e)"
  by (simp add: getEntity_def Let_def split: option.split)

lemma getEntity_tracked:
  "entities s eid = Some e \<Longrightarrow> getEntity env eid s = (e, s)"
  by (simp add: getEntity_def)

lemma on_entity_velocity_completes:
  "\<exists>s'. on_entity_velocity env d s = Inr s' \<and> entities s' (ev_entityId d) \<noteq> None"
  by (cases "getEntity env (ev_entityId d) s")
     (simp add: on_entity_velocity_def put_entity_def emit_def Let_def)

text \<open>
  Claim C1 (the velocity handler is to fail for an id that is not tracked, and is not to
  create an entity): evaluation at an empty registry. \<open>getEntity\<close> creates the entity
  before the handler's test, so the handler completes, the id is tracked afterwards and
  \<open>entity.velocity\<close> is emitted. A relative move for an id that is not tracked completes
  and creates the entity as well.
\<close>

theorem entity_velocity_untracked_creates:
  "entities empty_state 7 = None
   \<and> handle sample_env (Entity_velocity sample_velocity) empty_state
     = Inr \<lparr>entities = [7 \<mapsto> (sample_Entity 7)\<lparr>velocity := \<lparr>vec_x = 1, vec_y = 0, vec_z = 0\<rparr>\<rparr>],
            emitted = [Event ''entity.velocity''
                         ((sample_Entity 7)\<lparr>velocity := \<lparr>vec_x = 1, vec_y = 0, vec_z = 0\<rparr>\<rparr>)
                         (Entity_velocity sample_velocity)]\<rparr>
   \<and> handle sample_env (Rel_entity_move (sample_move\<lparr>mv_entityId := 7\<rparr>)) empty_state
     = Inr \<lparr>entities = [7 \<mapsto> (sample_Entity 7)\<lparr>position := \<lparr>vec_x = 10, vec_y = 0, vec_z = - 10\<rparr>\<rparr>],
            emitted = [Event ''entity.position''
                         ((sample_Entity 7)\<lparr>position := \<lparr>vec_x = 10, vec_y = 0, vec_z = - 10\<rparr>\<rparr>)
                         (Rel_entity_move (sample_move\<lparr>mv_entityId := 7\<rparr>))]\<rparr>"
  by (simp add: on_entity_velocity_def onRelativeEntityMovement_def getEntity_def
      empty_state_def sample_env_def sample_Entity_def sample_velocity_def sample_move_def
      put_entity_def emit_def Let_def vec3_translate_def decodeNotchianVelocityByte_0
      decodeNotchianVelocityByte_8000)

text \<open>
  Claim C2: a spawn and a teleport set the position by the first of three cases that
  applies: with \<open>fixedPointPosition\<close> it becomes the raw \<open>(x, y, z)\<close> divided by 32;
  otherwise with \<open>doublePosition\<close> it becomes the raw \<open>(x, y, z)\<close>; otherwise it stays
  the position the entity had (that of the new entity when the id was not tracked).
\<close>

theorem pose_position_policy:
  "(\<exists>s' e e'. handle env (Spawn_entity d) s = Inr s'
      \<and> e = fst (getEntity env (sp_entityId d) s)
      \<and> entities s' (sp_entityId d) = Some e'
      \<and> position e' =
          (if supportFeature env ''fixedPointPosition''
           then \<lparr>vec_x = sp_x d / 32, vec_y = sp_y d / 32, vec_z = sp_z d / 32\<rparr>
           else if supportFeature env ''doublePosition''
           then \<lparr>vec_x = sp_x d, vec_y = sp_y d, vec_z = sp_z d\<rparr>
           else position e))
   \<and> (\<exists>s' e e'. handle env (Entity_teleport t) s = Inr s'
      \<and> e = fst (getEntity env (tp_entityId t) s)
      \<and> entities s' (tp_entityId t) = Some e'
      \<and> position e' =
          (if supportFeature env ''fixedPointPosition''
           then \<lparr>vec_x = tp_x t / 32, vec_y = tp_y t / 32, vec_z = tp_z t / 32\<rparr>
           else if supportFeature env ''doublePosition''
           then \<lparr>vec_x = tp_x t, vec_y = tp_y t, vec_z = tp_z t\<rparr>
           else position e))"
proof
  show "\<exists>s' e e'. handle env (Spawn_entity d) s = Inr s'
      \<and> e = fst (getEntity env (sp_entityId d) s)
      \<and> entities s' (sp_entityId d) = Some e'
      \<and> position e' =
          (if supportFeature env ''fixedPointPosition''
           then \<lparr>vec_x = sp_x d / 32, vec_y = sp_y d / 32, vec_z = sp_z d / 32\<rparr>
           else if supportFeature env ''doublePosition''
           then \<lparr>vec_x = sp_x d, vec_y = sp_y d, vec_z = sp_z d\<rparr>
           else position e)"
    by (cases "getEntity env (sp_entityId d) s")
       (simp add: on_spawn_entity_def addEntity_def getEntity_tracked put_entity_def emit_def
          Let_def setEntityPose_def setEntityDataByType_def spawn_pose_def vec3_set_def
          split: option.split)
  show "\<exists>s' e e'. handle env (Entity_teleport t) s = Inr s'
      \<and> e = fst (getEntity env (tp_entityId t) s)
      \<and> entities s' (tp_entityId t) = Some e'
      \<and> position e' =
          (if supportFeature env ''fixedPointPosition''
           then \<lparr>vec_x = tp_x t / 32, vec_y = tp_y t / 32, vec_z = tp_z t / 32\<rparr>
           else if supportFeature env ''doublePosition''
           then \<lparr>vec_x = tp_x t, vec_y = tp_y t, vec_z = tp_z t\<rparr>
           else position e)"
    by (cases "getEntity env (tp_entityId t) s")
       (simp add: on_entity_teleport_def put_entity_def emit_def Let_def vec3_set_def)
qed

theorem pose_position_policy_witness:
  "(\<exists>s' e'. handle sample_env (Spawn_entity (sample_spawn 50)) empty_state = Inr s'
      \<and> entities s' 42 = Some e'
      \<and> position e' = \<lparr>vec_x = 2, vec_y = 1, vec_z = - 3\<rparr>)
   \<and> (\<exists>s' e'. handle double_position_env (Entity_teleport sample_teleport) tracked_state = Inr s'
      \<and> entities s' 3 = Some e'
      \<and> position e' = \<lparr>vec_x = 64, vec_y = 32, vec_z = - 96\<rparr>)
   \<and> (\<exists>s' e'. handle legacy_delta_env (Entity_teleport sample_teleport) tracked_state = Inr s'
      \<and> entities s' 3 = Some e'
      \<and> position e' = position (sample_Entity 3))"
proof -
  have f: "supportFeature sample_env ''fixedPointPosition''"
    "\<not> supportFeature double_position_env ''fixedPointPosition''"
    "supportFeature double_position_env ''doublePosition''"
    "\<not> supportFeature legacy_delta_env ''fixedPointPosition''"
    "\<not> supportFeature legacy_delta_env ''doublePosition''"
    by (simp_all add: sample_env_def double_position_env_def legacy_delta_env_def)
  have g: "fst (getEntity env 3 tracked_state) = sample_Entity 3" for env
    by (simp add: getEntity_fst tracked_state_def)
  have v: "sp_entityId (sample_spawn 50) = 42" "sp_x (sample_spawn 50) = 64"
    "sp_y (sample_spawn 50) = 32" "sp_z (sample_spawn 50) = - 96"
    "tp_entityId sample_teleport = 3" "tp_x sample_teleport = 64"
    "tp_y sample_teleport = 32" "tp_z sample_teleport = - 96"
    by (simp_all add: sample_spawn_def sample_teleport_def)
  from pose_position_policy [of sample_env "sample_spawn 50" empty_state sample_teleport]
    pose_position_policy [of double_position_env "sample_spawn 50" tracked_state sample_teleport]
    pose_position_policy [of legacy_delta_env "sample_spawn 50" tracked_state sample_teleport]
  show ?thesis
    by (auto simp add: f g v)
qed

text \<open>
  Claim C3: a relative move changes the entity by a translation of its position only:
  each coordinate grows by the raw delta divided by 32 with \<open>fixedPointDelta\<close>, and by
  the raw delta divided by \<open>128 * 32\<close> without it. For the raw delta \<open>(320, 0, -320)\<close>
  the position moves by \<open>(10, 0, -10)\<close> with the feature and by
  \<open>(10/128, 0, -10/128)\<close> without it.
\<close>

theorem relative_move_translates:
  "\<exists>s' e e'. handle env (Rel_entity_move d) s = Inr s'
     \<and> e = fst (getEntity env (mv_entityId d) s)
     \<and> entities s' (mv_entityId d) = Some e'
     \<and> e' = e\<lparr>position :=
          (if supportFeature env ''fixedPointDelta''
           then \<lparr>vec_x = vec_x (position e) + dX d / 32,
                 vec_y = vec_y (position e) + dY d / 32,
                 vec_z = vec_z (position e) + dZ d / 32\<rparr>
           else \<lparr>vec_x = vec_x (position e) + dX d / (128 * 32),
                 vec_y = vec_y (position e) + dY d / (128 * 32),
                 vec_z = vec_z (position e) + dZ d / (128 * 32)\<rparr>)\<rparr>
     \<and> (dX d = 320 \<and> dY d = 0 \<and> dZ d = - 320 \<longrightarrow>
          position e' =
            (if supportFeature env ''fixedPointDelta''
             then \<lparr>vec_x = vec_x (position e) + 10,
                   vec_y = vec_y (position e) + 0,
                   vec_z = vec_z (position e) + - 10\<rparr>
             else \<lparr>vec_x = vec_x (position e) + 10 / 128,
                   vec_y = vec_y (position e) + 0,
                   vec_z = vec_z (position e) + - 10 / 128\<rparr>))"
  by (cases "getEntity env (mv_entityId d) s")
     (simp add: onRelativeEntityMovement_def put_entity_def emit_def Let_def vec3_translate_def)

theorem relative_move_translates_witness:
  "(\<exists>s' e'. handle sample_env (Rel_entity_move sample_move) tracked_state = Inr s'
      \<and> entities s' 3 = Some e'
      \<and> position e' = \<lparr>vec_x = 10, vec_y = 0, vec_z = - 10\<rparr>)
   \<and> (\<exists>s' e'. handle legacy_delta_env (Rel_entity_move sample_move) tracked_state = Inr s'
      \<and> entities s' 3 = Some e'
      \<and> position e' = \<lparr>vec_x = 10 / 128, vec_y = 0, vec_z = - 10 / 128\<rparr>)"
proof -
  have p: "position (fst (getEntity env 3 tracked_state)) = \<lparr>vec_x = 0, vec_y = 0, vec_z = 0\<rparr>"
    for env
    by (simp add: getEntity_def tracked_state_def sample_Entity_def)
  have v: "mv_entityId sample_move = 3" "dX sample_move = 320" "dY sample_move = 0"
    "dZ sample_move = - 320"
    by (simp_all add: sample_move_def)
  have f1: "supportFeature sample_env ''fixedPointDelta''"
    by (simp add: sample_env_def)
  have f2: "\<not> supportFeature legacy_delta_env ''fixedPointDelta''"
    by (simp add: legacy_delta_env_def)
  from relative_move_translates [of sample_env sample_move tracked_state]
  obtain s1 e1 where a: "handle sample_env (Rel_entity_move sample_move) tracked_state = Inr s1"
      "entities s1 3 = Some e1" "position e1 = \<lparr>vec_x = 10, vec_y = 0, vec_z = - 10\<rparr>"
    using p v f1 by auto
  from relative_move_translates [of legacy_delta_env sample_move tracked_state]
  obtain s2 e2 where b: "handle legacy_delta_env (Rel_entity_move sample_move) tracked_state = Inr s2"
      "entities s2 3 = Some e2" "position e2 = \<lparr>vec_x = 10 / 128, vec_y = 0, vec_z = - 10 / 128\<rparr>"
    using p v f2 by auto
  from a b show ?thesis by blast
qed

lemma destroy_step:
  "destroy_loop env p (eid # ids) s =
     destroy_loop env p ids
       (s\<lparr>entities := (entities s)(eid := None),
          emitted := emitted s @
            [Event ''entity.destroy'' ((fst (getEntity env eid s))\<lparr>isValid := False\<rparr>) p]\<rparr>)"
  by (cases "getEntity env eid s")
     (auto simp add: getEntity_def put_entity_def delete_entity_def emit_def Let_def
        split: option.splits)

lemma destroy_loop_entities:
  "entities (destroy_loop env p ids s) = (\<lambda>i. if i \<in> set ids then None else entities s i)"
proof (induction ids arbitrary: s)
  case Nil
  show ?case by simp
next
  case (Cons eid ids)
  show ?case
    unfolding destroy_step Cons.IH by auto
qed

lemma destroy_loop_emitted:
  "emitted (destroy_loop env p ids s) =
     emitted s @
     map (\<lambda>k. Event ''entity.destroy''
                ((if ids ! k \<in> set (take k ids) then new_Entity env (ids ! k)
                  else fst (getEntity env (ids ! k) s))\<lparr>isValid := False\<rparr>) p)
         [0..<length ids]"
proof (induction ids arbitrary: s)
  case Nil
  show ?case by simp
next
  case (Cons eid ids)
  let ?s1 = "s\<lparr>entities := (entities s)(eid := None),
          emitted := emitted s @
            [Event ''entity.destroy'' ((fst (getEntity env eid s))\<lparr>isValid := False\<rparr>) p]\<rparr>"
  have later: "fst (getEntity env j ?s1) =
      (if j = eid then new_Entity env j else fst (getEntity env j s))" for j
    by (simp add: getEntity_fst)
  have idx: "[0..<length (eid # ids)] = 0 # map Suc [0..<length ids]"
    by (simp add: upt_conv_Cons map_Suc_upt del: upt_Suc)
  show ?case
    unfolding destroy_step Cons.IH [of ?s1] idx
    by (simp add: later o_def)
qed

text \<open>
  Claim C4: an \<open>entity_destroy\<close> packet completes; afterwards none of the listed ids is
  tracked and the other ids are as before; and it emits one \<open>entity.destroy\<close> event per
  listed id, in the listed order, each with the entity of that id (the tracked one, or a
  new one when the id is not tracked or was listed before) with \<open>isValid\<close> false.
\<close>

theorem entity_destroy_in_order:
  "\<exists>s'. handle env (Entity_destroy d) s = Inr s'
     \<and> entities s' = (\<lambda>i. if i \<in> set (entityIds d) then None else entities s i)
     \<and> emitted s' =
         emitted s @
         map (\<lambda>k. Event ''entity.destroy''
                ((if entityIds d ! k \<in> set (take k (entityIds d))
                  then new_Entity env (entityIds d ! k)
                  else fst (getEntity env (entityIds d ! k) s))\<lparr>isValid := False\<rparr>)
                (Entity_destroy d))
             [0..<length (entityIds d)]"
  by (simp add: on_entity_destroy_def destroy_loop_entities destroy_loop_emitted)

theorem entity_destroy_in_order_witness:
  "\<exists>s'. handle sample_env (Entity_destroy \<lparr>entityIds = [1, 2, 3]\<rparr>) three_state = Inr s'
     \<and> entities s' 1 = None \<and> entities s' 2 = None \<and> entities s' 3 = None
     \<and> emitted s' =
         [Event ''entity.destroy'' ((sample_Entity 1)\<lparr>isValid := False\<rparr>)
            (Entity_destroy \<lparr>entityIds = [1, 2, 3]\<rparr>),
          Event ''entity.destroy'' ((sample_Entity 2)\<lparr>isValid := False\<rparr>)
            (Entity_destroy \<lparr>entityIds = [1, 2, 3]\<rparr>),
          Event ''entity.destroy'' ((sample_Entity 3)\<lparr>isValid := False\<rparr>)
            (Entity_destroy \<lparr>entityIds = [1, 2, 3]\<rparr>)]"
proof -
  let ?d = "\<lparr>entityIds = [1, 2, 3]\<rparr>"
  have idx: "[0..<length [1, 2, 3 :: int]] = [0, 1, 2]"
    by (simp add: upt_rec)
  have g: "fst (getEntity sample_env 1 three_state) = sample_Entity 1"
    "fst (getEntity sample_env 2 three_state) = sample_Entity 2"
    "fst (getEntity sample_env 3 three_state) = sample_Entity 3"
    by (simp_all add: getEntity_fst three_state_def)
  from entity_destroy_in_order [of sample_env ?d three_state]
  obtain s' where a: "handle sample_env (Entity_destroy ?d) three_state = Inr s'"
    and b: "entities s' = (\<lambda>i. if i \<in> set (entityIds ?d) then None else entities three_state i)"
    and c: "emitted s' =
         emitted three_state @
         map (\<lambda>k. Event ''entity.destroy''
                ((if entityIds ?d ! k \<in> set (take k (entityIds ?d))
                  then new_Entity sample_env (entityIds ?d ! k)
                  else fst (getEntity sample_env (entityIds ?d ! k) three_state))
                    \<lparr>isValid := False\<rparr>)
                (Entity_destroy ?d))
             [0..<length (entityIds ?d)]"
    by blast
  have b': "entities s' 1 = None \<and> entities s' 2 = None \<and> entities s' 3 = None"
    unfolding b by simp
  have e0: "emitted three_state = []"
    by (simp add: three_state_def)
  have c': "emitted s' =
         [Event ''entity.destroy'' ((sample_Entity 1)\<lparr>isValid := False\<rparr>) (Entity_destroy ?d),
          Event ''entity.destroy'' ((sample_Entity 2)\<lparr>isValid := False\<rparr>) (Entity_destroy ?d),
          Event ''entity.destroy'' ((sample_Entity 3)\<lparr>isValid := False\<rparr>) (Entity_destroy ?d)]"
    unfolding c e0 by (simp add: idx g)
  from a b' c' show ?thesis by blast
qed

text \<open>
  Claim C5 as stated (destroying an id that is not tracked leaves the registry as it was
  and has no other observable effect) fails: on the empty registry, with nothing emitted
  so far, destroying id 5 emits an \<open>entity.destroy\<close> event that carries a newly
  constructed entity.
\<close>

theorem destroy_untracked_counterexample:
  "entities empty_state 5 = None \<and> emitted empty_state = []
   \<and> emitted (projr (handle sample_env (Entity_destroy \<lparr>entityIds = [5]\<rparr>) empty_state))
     = [Event ''entity.destroy'' ((sample_Entity 5)\<lparr>isValid := False\<rparr>)
          (Entity_destroy \<lparr>entityIds = [5]\<rparr>)]"
  by (simp add: on_entity_destroy_def getEntity_def empty_state_def sample_env_def
      put_entity_def delete_entity_def emit_def Let_def)

text \<open>
  Claim C5, amended: destroying an id that is not tracked completes and leaves the
  registry as it was, and it emits one \<open>entity.destroy\<close> event, which carries the entity
  newly constructed for that id, with \<open>isValid\<close> false.
\<close>

theorem destroy_untracked_emits:
  assumes "entities s eid = None"
  shows "\<exists>s'. handle env (Entity_destroy \<lparr>entityIds = [eid]\<rparr>) s = Inr s'
     \<and> entities s' = entities s
     \<and> emitted s' = emitted s @
         [Event ''entity.destroy'' ((new_Entity env eid)\<lparr>isValid := False\<rparr>)
            (Entity_destroy \<lparr>entityIds = [eid]\<rparr>)]"
proof -
  have "(\<lambda>i. if i \<in> set [eid] then None else entities s i) = entities s"
    using assms by auto
  then show ?thesis
    using assms
    by (simp add: on_entity_destroy_def destroy_loop_entities destroy_loop_emitted
        getEntity_fst del: destroy_loop.simps)
qed

theorem destroy_untracked_emits_witness:
  "entities empty_state 5 = None
   \<and> (\<exists>s'. handle sample_env (Entity_destroy \<lparr>entityIds = [5]\<rparr>) empty_state = Inr s'
     \<and> entities s' = entities empty_state
     \<and> emitted s' = emitted empty_state @
         [Event ''entity.destroy'' ((new_Entity sample_env 5)\<lparr>isValid := False\<rparr>)
            (Entity_destroy \<lparr>entityIds = [5]\<rparr>)])"
proof -
  have h: "entities empty_state 5 = None"
    by (simp add: empty_state_def)
  from destroy_untracked_emits [OF h, of sample_env] h show ?thesis
    by simp
qed

text \<open>
  Claim C9: a spawn completes and the entity tracked under the packet's id has its
  classification from the type registry: when the type code has no entry, name
  "unknown", type "other", entityType the type code, displayName and kind "unknown";
  when it has an entry, the name, type, id, displayName and category of the entry.
\<close>

theorem spawn_classification:
  "\<exists>s' e'. handle env (Spawn_entity d) s = Inr s'
     \<and> entities s' (sp_entityId d) = Some e'
     \<and> (case registry_entities env (sp_type d) of
          None \<Rightarrow>
            ent_name e' = Some ''unknown'' \<and> ent_type e' = Some ''other''
            \<and> entityType e' = Some (sp_type d)
            \<and> displayName e' = Some ''unknown'' \<and> kind e' = Some ''unknown''
        | Some r \<Rightarrow>
            ent_name e' = Some (data_name r) \<and> ent_type e' = Some (data_type r)
            \<and> entityType e' = Some (data_id r)
            \<and> displayName e' = Some (data_displayName r) \<and> kind e' = Some (data_category r))"
  by (cases "getEntity env (sp_entityId d) s")
     (simp add: on_spawn_entity_def addEntity_def getEntity_tracked put_entity_def emit_def
        Let_def setEntityPose_def setEntityDataByType_def split: option.split)

theorem spawn_classification_witness:
  "(\<exists>s' e'. handle sample_env (Spawn_entity (sample_spawn 99)) empty_state = Inr s'
      \<and> entities s' 42 = Some e'
      \<and> ent_name e' = Some ''unknown'' \<and> ent_type e' = Some ''other''
      \<and> entityType e' = Some 99
      \<and> displayName e' = Some ''unknown'' \<and> kind e' = Some ''unknown'')
   \<and> (\<exists>s' e'. handle sample_env (Spawn_entity (sample_spawn 50)) empty_state = Inr s'
      \<and> entities s' 42 = Some e'
      \<and> ent_name e' = Some ''creeper'' \<and> ent_type e' = Some ''hostile''
      \<and> entityType e' = Some 50
      \<and> displayName e' = Some ''Creeper'' \<and> kind e' = Some ''Hostile mobs'')"
proof -
  have r1: "registry_entities sample_env 99 = None"
    and r2: "registry_entities sample_env 50 = Some sample_data"
    by (simp_all add: sample_env_def)
  have i: "sp_entityId (sample_spawn t) = 42" "sp_type (sample_spawn t) = t" for t
    by (simp_all add: sample_spawn_def)
  from spawn_classification [of sample_env "sample_spawn 99" empty_state]
    spawn_classification [of sample_env "sample_spawn 50" empty_state]
  show ?thesis
    unfolding i r1 r2 by (auto simp add: sample_data_def)
qed

text \<open>
  Claim C10: for an entity tracked under the packet's id, an \<open>entity_look\<close> packet
  completes and replaces that entity by the same entity with \<open>yaw\<close> and \<open>pitch\<close> set to
  the decoded angle bytes; its position, velocity, uuid and classification are as
  before, the set of tracked ids is as before, and every other id has the entity it had.
\<close>

theorem entity_look_frame:
  assumes "entities s (lk_entityId d) = Some e"
  shows "\<exists>s' e'. handle env (Entity_look d) s = Inr s'
     \<and> e' = e\<lparr>yaw := decodeNotchianYawByte (lk_yaw d),
               pitch := decodeNotchianPitchByte (lk_pitch d)\<rparr>
     \<and> entities s' = (entities s)(lk_entityId d \<mapsto> e')
     \<and> dom (entities s') = dom (entities s)
     \<and> position e' = position e \<and> velocity e' = velocity e \<and> uuid e' = uuid e
     \<and> ent_type e' = ent_type e \<and> entityType e' = entityType e \<and> ent_name e' = ent_name e
     \<and> displayName e' = displayName e \<and> kind e' = kind e
     \<and> (\<forall>j. j \<noteq> lk_entityId d \<longrightarrow> entities s' j = entities s j)"
  using assms
  by (auto simp add: onEntityLook_def getEntity_tracked put_entity_def emit_def Let_def)

theorem entity_look_frame_witness:
  "entities tracked_state 3 = Some (sample_Entity 3)
   \<and> (\<exists>s' e'. handle sample_env (Entity_look sample_look) tracked_state = Inr s'
     \<and> e' = (sample_Entity 3)\<lparr>yaw := decodeNotchianYawByte 64, pitch := decodeNotchianPitchByte 0\<rparr>
     \<and> entities s' = (entities tracked_state)(3 \<mapsto> e')
     \<and> dom (entities s') = dom (entities tracked_state)
     \<and> position e' = position (sample_Entity 3))"
proof -
  have v: "lk_entityId sample_look = 3" "lk_yaw sample_look = 64" "lk_pitch sample_look = 0"
    by (simp_all add: sample_look_def)
  have h: "entities tracked_state (lk_entityId sample_look) = Some (sample_Entity 3)"
    by (simp add: tracked_state_def v)
  from entity_look_frame [OF h, of sample_env] h show ?thesis
    unfolding v by auto
qed

end
